theory Spec2Isabelle
  imports Main
begin

section \<open>Python string primitives used by the two applications\<close>

text \<open>
  Both source files (\<^verbatim>\<open>src/app.py\<close>, the basic variant, and \<^verbatim>\<open>src/app_demo.py\<close>,
  the approval variant) work on Python \<^verbatim>\<open>str\<close> values. A string is modelled as a
  \<^typ>\<open>string\<close>, each \<^typ>\<open>char\<close> standing for one code point below 256; \<^verbatim>\<open>str.lower\<close>
  and \<^verbatim>\<open>str.isspace\<close> are written out for that range. Code points from 256 on are
  outside the model.
\<close>

definition isspace :: "char \<Rightarrow> bool" where
  \<comment> \<open>\<^verbatim>\<open>str.isspace\<close> on one code point: TAB, LF, VT, FF, CR, FS, GS, RS, US, SPACE, NEL, NBSP.\<close>
  "isspace c =
     (let n = (of_char c :: nat)
      in (9 \<le> n \<and> n \<le> 13) \<or> (28 \<le> n \<and> n \<le> 32) \<or> n = 133 \<or> n = 160)"

definition lower_char :: "char \<Rightarrow> char" where
  \<comment> \<open>\<^verbatim>\<open>str.lower\<close> on one code point: A-Z and the upper-case letters of Latin-1.\<close>
  "lower_char c =
     (let n = (of_char c :: nat)
      in if (65 \<le> n \<and> n \<le> 90) \<or> (192 \<le> n \<and> n \<le> 214) \<or> (216 \<le> n \<and> n \<le> 222)
         then char_of (n + 32) else c)"

definition lower :: "string \<Rightarrow> string" where
  "lower s = map lower_char s"

fun split_char :: "char \<Rightarrow> string \<Rightarrow> string list" where
  \<comment> \<open>\<^verbatim>\<open>s.split(sep)\<close> for a separator of one character: never the empty list.\<close>
  "split_char sep [] = [[]]"
| "split_char sep (c # cs) =
     (if c = sep then [] # split_char sep cs
      else (case split_char sep cs of
              [] \<Rightarrow> [[c]]
            | w # ws \<Rightarrow> (c # w) # ws))"

definition strip :: "string \<Rightarrow> string" where
  \<comment> \<open>\<^verbatim>\<open>s.strip()\<close>: leading and trailing whitespace removed.\<close>
  "strip s = rev (dropWhile isspace (rev (dropWhile isspace s)))"

fun join :: "string \<Rightarrow> string list \<Rightarrow> string" where
  \<comment> \<open>\<^verbatim>\<open>sep.join(xs)\<close>\<close>
  "join sep [] = []"
| "join sep [x] = x"
| "join sep (x # y # ys) = x @ sep @ join sep (y # ys)"

definition replace_newlines :: "string \<Rightarrow> string" where
  \<comment> \<open>\<^verbatim>\<open>body.replace("\n", "<br>")\<close>\<close>
  "replace_newlines body = concat (map (\<lambda>c. if c = CHR 0x0A then ''<br>'' else [c]) body)"

section \<open>Configuration and helpers\<close>

definition ALLOWED_DOMAINS :: "string set" where
  "ALLOWED_DOMAINS = {''iands.com'', ''kogo.ai''}"

definition is_allowed_user :: "string \<Rightarrow> bool" where
  \<comment> \<open>\<^verbatim>\<open>src/app.py\<close>, lines 47-49. \<^verbatim>\<open>[-1]\<close> is the last item; \<^verbatim>\<open>split\<close> never returns an
      empty list (lemma \<open>split_char_not_Nil\<close>), so no IndexError can arise.\<close>
  "is_allowed_user email =
     (let domain = lower (last (split_char CHR ''@'' email))
      in domain \<in> ALLOWED_DOMAINS)"

definition is_allowed_user_demo :: "string \<Rightarrow> bool" where
  \<comment> \<open>\<^verbatim>\<open>src/app_demo.py\<close>, lines 74-75.\<close>
  "is_allowed_user_demo email \<longleftrightarrow> lower (last (split_char CHR ''@'' email)) \<in> ALLOWED_DOMAINS"

definition parse_emails :: "string \<Rightarrow> string list" where
  \<comment> \<open>\<^verbatim>\<open>src/app_demo.py\<close>, lines 77-79.\<close>
  "parse_emails input_str =
     map strip (filter (\<lambda>email. strip email \<noteq> []) (split_char CHR '','' input_str))"

definition domain_of :: "string \<Rightarrow> string" where
  \<comment> \<open>The specification's notion of the domain of an address: what follows its last
      \<^verbatim>\<open>@\<close>, the whole string when it has none. Written from the specification, to be
      compared with what \<open>is_allowed_user\<close> computes.\<close>
  "domain_of e = rev (takeWhile (\<lambda>c. c \<noteq> CHR ''@'') (rev e))"

section \<open>The outside world: collaborators, files, one run of the script\<close>

text \<open>
  Streamlit runs the whole script once for every interaction. A run starts from the
  session state and the token files left by the previous run, sees at most one clicked
  button together with the current contents of the text inputs, and ends at the end of
  the script, at \<^verbatim>\<open>st.stop()\<close> or at an exception nobody catches. The OAuth flow, the
  language model and the Gmail API are collaborators: what each of them answers in a
  run is a field of \<open>world\<close>, and every request sent to the language model or to Gmail
  is appended to the run's list of calls, also when the answer is an exception.
  Encoding the MIME message (\<^verbatim>\<open>as_bytes\<close>) is the email package's work and can raise, for
  instance HeaderParseError on a header value that holds a line feed followed by a
  header name and a colon; whether it does for a given message is a field of \<open>world\<close>
  too. Writing an opened token file is taken to succeed.
\<close>

datatype exn =
    PermissionError string
  | TypeError string
  | AttributeError string
  | HeaderParseError string
  | CollaboratorError string

fun str_of :: "exn \<Rightarrow> string" where
  \<comment> \<open>\<^verbatim>\<open>str(e)\<close>\<close>
  "str_of (PermissionError m) = m"
| "str_of (TypeError m) = m"
| "str_of (AttributeError m) = m"
| "str_of (HeaderParseError m) = m"
| "str_of (CollaboratorError m) = m"

fun fmt :: "string option \<Rightarrow> string" where
  \<comment> \<open>a session value inside an f-string: \<^verbatim>\<open>None\<close> prints as \<^verbatim>\<open>None\<close>\<close>
  "fmt None = ''None''"
| "fmt (Some s) = s"

datatype creds = Creds (to_json: string)

datatype service = Service creds
  \<comment> \<open>\<^verbatim>\<open>build("gmail", "v1", credentials=creds)\<close>; a service object is truthy\<close>

record message =
  subtype :: string
  payload :: string
  to_hdr :: string
  subject_hdr :: "string option"
  cc_hdr :: "string option"

datatype call =
    Workflow_Invoke string
  | Drafts_Create service message
  | Messages_Send service message
  | Drafts_Delete service string

record world =
  flow_creds :: "exn + creds"
  get_profile :: "exn + string"
  workflow :: "string \<Rightarrow> exn + string"
  workflow_demo :: "string \<Rightarrow> exn + string \<times> string"
  as_bytes :: "message \<Rightarrow> exn option"
  drafts_create :: "message \<Rightarrow> exn + string option"
  messages_send :: "message \<Rightarrow> exn option"
  drafts_delete :: "string \<Rightarrow> exn option"

text \<open>
  \<open>flow_creds\<close> is the outcome of \<^verbatim>\<open>InstalledAppFlow.from_client_secrets_file\<close>,
  \<^verbatim>\<open>run_local_server\<close> and \<^verbatim>\<open>build\<close>; \<open>get_profile\<close> that of
  \<^verbatim>\<open>getProfile(userId="me").execute()["emailAddress"]\<close>; \<open>workflow\<close> is the text
  \<^verbatim>\<open>workflow.invoke\<close> returns in the basic variant, \<open>workflow_demo\<close> the pair of
  content and subject it returns in the approval variant; \<open>as_bytes\<close> is the outcome of
  \<^verbatim>\<open>msg.as_bytes()\<close> on the message built (lines 89 of \<^verbatim>\<open>src/app.py\<close>, 106 and 121 of
  \<^verbatim>\<open>src/app_demo.py\<close>), \<open>None\<close> when the message is encoded; \<open>drafts_create\<close> answers with
  the \<^verbatim>\<open>id\<close> of the created draft when the response has one; for \<open>messages_send\<close> and
  \<open>drafts_delete\<close>, \<open>None\<close> is success.
\<close>

type_synonym fs = "string \<rightharpoonup> string"

definition token_file :: "string \<Rightarrow> string" where
  "token_file email = ''tokens/token_'' @ email @ ''.json''"

datatype ui = Success string | Error string | Warning string | Info string

datatype button =
    Authenticate_Gmail | Switch_Account | Logout | Generate_Draft | Cancel | Send_Email

record inputs =
  clicked :: "button option"
  user_prompt :: string
  to_email :: string
  cc_email :: string
  subject_text :: string

record session =
  user_service :: "service option"
  user_email :: "string option"

record session_demo = session +
  generated_email :: "string option"
  generated_subject :: "string option"
  generated_to :: "string list option"
  generated_cc :: "string list option"
  draft_id :: "string option"

record 's run =
  state :: 's
  files :: fs
  calls :: "call list"
  shown :: "ui list"
  raised :: "exn option"
  stopped :: bool

definition start :: "'s \<Rightarrow> fs \<Rightarrow> 's run" where
  "start s fs = \<lparr>state = s, files = fs, calls = [], shown = [], raised = None, stopped = False\<rparr>"

section \<open>The basic variant (\<^verbatim>\<open>src/app.py\<close>)\<close>

definition get_gmail_service :: "world \<Rightarrow> fs \<Rightarrow> (exn + service \<times> string) \<times> fs" where
  \<comment> \<open>lines 52-73\<close>
  "get_gmail_service w fs =
     (case flow_creds w of
        Inl e \<Rightarrow> (Inl e, fs)
      | Inr creds \<Rightarrow>
          (case get_profile w of
             Inl e \<Rightarrow> (Inl e, fs)
           | Inr email \<Rightarrow>
               if \<not> is_allowed_user email
               then (Inl (PermissionError (''Access denied for '' @ email @
                       ''. Only iands.com and kogo.ai users are allowed.'')), fs)
               else (Inr (Service creds, email),
                     fs(token_file email \<mapsto> to_json creds))))"

definition create_gmail_draft ::
    "world \<Rightarrow> service \<Rightarrow> string \<Rightarrow> string \<Rightarrow> string \<Rightarrow> (exn + string option) \<times> call list" where
  \<comment> \<open>lines 84-94; an exception of \<^verbatim>\<open>as_bytes\<close> (line 89) leaves before the request\<close>
  "create_gmail_draft w service to subj body =
     (let message = \<lparr>subtype = ''plain'', payload = body, to_hdr = to,
                      subject_hdr = Some subj, cc_hdr = None\<rparr>
      in case as_bytes w message of
           Some e \<Rightarrow> (Inl e, [])
         | None \<Rightarrow> (drafts_create w message, [Drafts_Create service message]))"

definition auth_ui :: "world \<Rightarrow> inputs \<Rightarrow> session run \<Rightarrow> session run" where
  \<comment> \<open>lines 106-134\<close>
  "auth_ui w inp r =
     (if user_service (state r) = None then
        (if clicked inp = Some Authenticate_Gmail then
           (case get_gmail_service w (files r) of
              (Inr (service, email), fs') \<Rightarrow>
                r\<lparr>state := (state r)\<lparr>user_service := Some service, user_email := Some email\<rparr>,
                  files := fs',
                  shown := shown r @ [Success (''Authenticated as '' @ email)]\<rparr>
            | (Inl e, fs') \<Rightarrow>
                r\<lparr>files := fs',
                  shown := shown r @ [Error (''Authentication failed: '' @ str_of e)]\<rparr>)
         else r)
      else
        (let r1 = r\<lparr>shown := shown r @ [Info (''Logged in as: '' @ fmt (user_email (state r)))]\<rparr>
         in if clicked inp = Some Switch_Account then
              r1\<lparr>state := (state r1)\<lparr>user_service := None, user_email := None\<rparr>,
                 stopped := True\<rparr>
            else if clicked inp = Some Logout then
              (let token = token_file (fmt (user_email (state r1)));
                   fs' = (if token \<in> dom (files r1) then (files r1)(token := None) else files r1)
               in r1\<lparr>state := (state r1)\<lparr>user_service := None, user_email := None\<rparr>,
                     files := fs',
                     shown := shown r1 @ [Success ''Logged out successfully''],
                     stopped := True\<rparr>)
            else r1))"

definition hard_ui_block :: "session run \<Rightarrow> session run" where
  \<comment> \<open>lines 137-139; \<^verbatim>\<open>None\<close> and the empty string are falsy\<close>
  "hard_ui_block r =
     (case user_email (state r) of
        None \<Rightarrow> r
      | Some e \<Rightarrow>
          if e \<noteq> [] \<and> \<not> is_allowed_user e
          then r\<lparr>shown := shown r @ [Error ''You are not authorized to use this application.''],
                 stopped := True\<rparr>
          else r)"

definition email_generation :: "world \<Rightarrow> inputs \<Rightarrow> session run \<Rightarrow> session run" where
  \<comment> \<open>lines 142-182\<close>
  "email_generation w inp r =
     (case user_service (state r) of
        None \<Rightarrow> r
      | Some service \<Rightarrow>
          if clicked inp = Some Generate_Draft then
            (if strip (user_prompt inp) = [] then
               r\<lparr>shown := shown r @ [Warning ''Please enter a prompt'']\<rparr>
             else
               (case workflow w (user_prompt inp) of
                  Inl e \<Rightarrow>
                    r\<lparr>calls := calls r @ [Workflow_Invoke (user_prompt inp)],
                      shown := shown r @ [Error (''Error: '' @ str_of e)]\<rparr>
                | Inr email_body \<Rightarrow>
                    (case create_gmail_draft w service (to_email inp) (subject_text inp) email_body of
                       (Inl e, cs) \<Rightarrow>
                         r\<lparr>calls := calls r @ Workflow_Invoke (user_prompt inp) # cs,
                           shown := shown r @ [Error (''Error: '' @ str_of e)]\<rparr>
                     | (Inr draft, cs) \<Rightarrow>
                         r\<lparr>calls := calls r @ Workflow_Invoke (user_prompt inp) # cs,
                           shown := shown r @ [Success ''Gmail draft created successfully!'']\<rparr>)))
          else r)"

definition app :: "world \<Rightarrow> inputs \<Rightarrow> session \<Rightarrow> fs \<Rightarrow> session run" where
  \<comment> \<open>one run of \<^verbatim>\<open>src/app.py\<close>\<close>
  "app w inp s fs =
     (let r1 = auth_ui w inp (start s fs)
      in if stopped r1 then r1
         else (let r2 = hard_ui_block r1
               in if stopped r2 then r2 else email_generation w inp r2))"



section \<open>The approval variant (\<^verbatim>\<open>src/app_demo.py\<close>)\<close>

definition get_gmail_service_demo :: "world \<Rightarrow> fs \<Rightarrow> (exn + service \<times> string) \<times> fs" where
  \<comment> \<open>lines 82-96\<close>
  "get_gmail_service_demo w fs =
     (case flow_creds w of
        Inl e \<Rightarrow> (Inl e, fs)
      | Inr creds \<Rightarrow>
          (case get_profile w of
             Inl e \<Rightarrow> (Inl e, fs)
           | Inr email \<Rightarrow>
               if \<not> is_allowed_user_demo email
               then (Inl (PermissionError ''Access denied: unauthorized domain''), fs)
               else (Inr (Service creds, email),
                     fs(token_file email \<mapsto> to_json creds))))"

definition html_message ::
    "string list \<Rightarrow> string option \<Rightarrow> string \<Rightarrow> string list option \<Rightarrow> message" where
  \<comment> \<open>the MIMEText object built by lines 100-104 and, with the same text, by lines
      115-119; \<^verbatim>\<open>if cc_list\<close> is false for \<^verbatim>\<open>None\<close> and for the empty list\<close>
  "html_message to_list subj body cc_list =
     \<lparr>subtype = ''html'', payload = replace_newlines body,
      to_hdr = join '', '' to_list, subject_hdr = subj,
      cc_hdr = (case cc_list of
                  None \<Rightarrow> None
                | Some cc \<Rightarrow> if cc \<noteq> [] then Some (join '', '' cc) else None)\<rparr>"

definition create_gmail_draft_demo ::
    "world \<Rightarrow> service \<Rightarrow> string list \<Rightarrow> string \<Rightarrow> string \<Rightarrow> string list option
       \<Rightarrow> (exn + string option) \<times> call list" where
  \<comment> \<open>lines 99-111; an exception of \<^verbatim>\<open>as_bytes\<close> (line 106) leaves before the request;
      the result is \<^verbatim>\<open>draft.get("id")\<close>\<close>
  "create_gmail_draft_demo w service to_list subj body cc_list =
     (let msg = html_message to_list (Some subj) body cc_list
      in case as_bytes w msg of
           Some e \<Rightarrow> (Inl e, [])
         | None \<Rightarrow> (drafts_create w msg, [Drafts_Create service msg]))"

definition send_gmail_message ::
    "world \<Rightarrow> service option \<Rightarrow> string list \<Rightarrow> string option \<Rightarrow> string \<Rightarrow> string list option
       \<Rightarrow> string option \<Rightarrow> exn option \<times> call list" where
  \<comment> \<open>lines 114-128; the subject comes from the session and is assigned as it is; an
      exception of \<^verbatim>\<open>as_bytes\<close> (line 121) leaves before any request; then
      \<^verbatim>\<open>service.users()\<close> on \<^verbatim>\<open>None\<close> raises AttributeError; \<^verbatim>\<open>if draft_id\<close> is false for
      \<^verbatim>\<open>None\<close> and for the empty string\<close>
  "send_gmail_message w service to_list subj body cc_list draft =
     (let msg = html_message to_list subj body cc_list
      in case as_bytes w msg of
           Some e \<Rightarrow> (Some e, [])
         | None \<Rightarrow>
             (case service of
                None \<Rightarrow>
                  (Some (AttributeError
                     ([CHR 0x27] @ ''NoneType'' @ [CHR 0x27] @ '' object has no attribute '' @
                      [CHR 0x27] @ ''users'' @ [CHR 0x27])), [])
              | Some svc \<Rightarrow>
                  (case messages_send w msg of
                     Some e \<Rightarrow> (Some e, [Messages_Send svc msg])
                   | None \<Rightarrow>
                       (case draft of
                          None \<Rightarrow> (None, [Messages_Send svc msg])
                        | Some d \<Rightarrow>
                            if d \<noteq> []
                            then (drafts_delete w d,
                                  [Messages_Send svc msg, Drafts_Delete svc d])
                            else (None, [Messages_Send svc msg])))))"

definition auth_ui_demo :: "world \<Rightarrow> inputs \<Rightarrow> session_demo run \<Rightarrow> session_demo run" where
  \<comment> \<open>lines 142-156\<close>
  "auth_ui_demo w inp r =
     (if user_service (state r) = None then
        (if clicked inp = Some Authenticate_Gmail then
           (case get_gmail_service_demo w (files r) of
              (Inr (service, email), fs') \<Rightarrow>
                r\<lparr>state := (state r)\<lparr>user_service := Some service, user_email := Some email\<rparr>,
                  files := fs',
                  shown := shown r @ [Success (''Logged in as '' @ email)]\<rparr>
            | (Inl e, fs') \<Rightarrow>
                r\<lparr>files := fs', shown := shown r @ [Error (str_of e)]\<rparr>)
         else r)
      else
        (let r1 = r\<lparr>shown := shown r @ [Info (''Logged in as '' @ fmt (user_email (state r)))]\<rparr>
         in if clicked inp = Some Logout then
              r1\<lparr>state := (state r1)\<lparr>user_service := None, user_email := None\<rparr>,
                 stopped := True\<rparr>
            else r1))"

definition email_generation_demo ::
    "world \<Rightarrow> inputs \<Rightarrow> session_demo run \<Rightarrow> session_demo run" where
  \<comment> \<open>lines 159-182; nothing catches an exception of the workflow or of the draft call\<close>
  "email_generation_demo w inp r =
     (case user_service (state r) of
        None \<Rightarrow> r
      | Some service \<Rightarrow>
          if clicked inp = Some Generate_Draft then
            (case workflow_demo w (user_prompt inp) of
               Inl e \<Rightarrow>
                 r\<lparr>calls := calls r @ [Workflow_Invoke (user_prompt inp)], raised := Some e\<rparr>
             | Inr (gmail_content, gmail_subject) \<Rightarrow>
                 (let to_list = parse_emails (to_email inp);
                      cc_list = (if cc_email inp \<noteq> [] then Some (parse_emails (cc_email inp))
                                 else None);
                      s1 = (state r)\<lparr>generated_email := Some gmail_content,
                                      generated_subject := Some gmail_subject,
                                      generated_to := Some to_list,
                                      generated_cc := cc_list\<rparr>
                  in case create_gmail_draft_demo w service to_list gmail_subject gmail_content
                            cc_list of
                       (Inl e, cs) \<Rightarrow>
                         r\<lparr>state := s1,
                           calls := calls r @ Workflow_Invoke (user_prompt inp) # cs,
                           raised := Some e\<rparr>
                     | (Inr d, cs) \<Rightarrow>
                         r\<lparr>state := s1\<lparr>draft_id := d\<rparr>,
                           calls := calls r @ Workflow_Invoke (user_prompt inp) # cs,
                           shown := shown r @ [Success ''Draft created. Please review below.'']\<rparr>))
          else r)"

definition reset_fields :: "session_demo \<Rightarrow> session_demo" where
  \<comment> \<open>lines 200-205\<close>
  "reset_fields s =
     s\<lparr>generated_email := None, generated_subject := None, generated_to := None,
       generated_cc := None, draft_id := None\<rparr>"

definition human_approval :: "world \<Rightarrow> inputs \<Rightarrow> session_demo run \<Rightarrow> session_demo run" where
  \<comment> \<open>lines 185-223; the section is entered when \<^verbatim>\<open>generated_email\<close> is a non-empty
      string; showing the recipients joins \<^verbatim>\<open>generated_to\<close>, a TypeError on \<^verbatim>\<open>None\<close>;
      nothing catches an exception of \<^verbatim>\<open>send_gmail_message\<close>\<close>
  "human_approval w inp r =
     (case generated_email (state r) of
        None \<Rightarrow> r
      | Some body \<Rightarrow>
          if body = [] then r
          else
            (case generated_to (state r) of
               None \<Rightarrow> r\<lparr>raised := Some (TypeError ''can only join an iterable'')\<rparr>
             | Some to_list \<Rightarrow>
                 (let r1 = (if clicked inp = Some Cancel
                            then r\<lparr>state := reset_fields (state r),
                                   shown := shown r @ [Warning ''Email cancelled'']\<rparr>
                            else r)
                  in if clicked inp = Some Send_Email then
                       (case send_gmail_message w (user_service (state r1)) to_list
                               (generated_subject (state r1)) body (generated_cc (state r1))
                               (draft_id (state r1)) of
                          (Some e, cs) \<Rightarrow> r1\<lparr>calls := calls r1 @ cs, raised := Some e\<rparr>
                        | (None, cs) \<Rightarrow>
                            r1\<lparr>state := reset_fields (state r1),
                               calls := calls r1 @ cs,
                               shown := shown r1 @ [Success ''Email sent successfully!'']\<rparr>)
                     else r1)))"

definition app_demo :: "world \<Rightarrow> inputs \<Rightarrow> session_demo \<Rightarrow> fs \<Rightarrow> session_demo run" where
  \<comment> \<open>one run of \<^verbatim>\<open>src/app_demo.py\<close>\<close>
  "app_demo w inp s fs =
     (let r1 = auth_ui_demo w inp (start s fs)
      in if stopped r1 then r1
         else (let r2 = email_generation_demo w inp r1
               in if raised r2 \<noteq> None then r2 else human_approval w inp r2))"



section \<open>The states of the specification's session state machine\<close>

definition Anonymous :: "'a session_scheme \<Rightarrow> bool" where
  "Anonymous s \<longleftrightarrow> user_service s = None \<and> user_email s = None"



definition no_pending_draft :: "session_demo \<Rightarrow> bool" where
  "no_pending_draft s \<longleftrightarrow>
     generated_email s = None \<and> generated_subject s = None \<and> generated_to s = None \<and>
     generated_cc s = None \<and> draft_id s = None"

definition Authenticated :: "session_demo \<Rightarrow> bool" where
  "Authenticated s \<longleftrightarrow> user_service s \<noteq> None \<and> no_pending_draft s"

definition PendingApproval :: "session_demo \<Rightarrow> bool" where
  \<comment> \<open>a pending draft is on review: the content is a non-empty string (the test of
      line 185) and subject and recipients are set\<close>
  "PendingApproval s \<longleftrightarrow>
     user_service s \<noteq> None \<and>
     generated_email s \<noteq> None \<and> generated_email s \<noteq> Some [] \<and>
     generated_subject s \<noteq> None \<and> generated_to s \<noteq> None"

section \<open>Concrete scenarios\<close>

text \<open>
  The inputs at which the theorems below are evaluated: a world in which the OAuth
  flow authenticates a given address and every other collaborator answers, the same
  world with a failing draft deletion, with an empty generated content and with a
  generated subject that holds a header line, a click on a button with given recipient
  and CC inputs, and sessions of both variants. The email package of these worlds
  refuses, as \<^verbatim>\<open>email.header.Header.encode\<close> does, a header value in which a line feed is
  followed by one or more characters other than space and tab and then a colon.
\<close>

fun embedded_header :: "string \<Rightarrow> bool" where
  "embedded_header [] = False"
| "embedded_header (c # cs) =
     ((c = CHR 0x0A \<and>
       CHR '':'' \<in> set (drop 1 (takeWhile (\<lambda>x. x \<noteq> CHR '' '' \<and> x \<noteq> CHR 0x09) cs))) \<or>
      embedded_header cs)"

definition refuse_embedded_header :: "message \<Rightarrow> exn option" where
  "refuse_embedded_header m =
     (if embedded_header (to_hdr m) \<or>
         (case subject_hdr m of None \<Rightarrow> False | Some v \<Rightarrow> embedded_header v) \<or>
         (case cc_hdr m of None \<Rightarrow> False | Some v \<Rightarrow> embedded_header v)
      then Some (HeaderParseError ''header value appears to contain an embedded header'')
      else None)"

definition creds0 :: creds where
  "creds0 = Creds ''token-material''"

definition world0 :: "string \<Rightarrow> world" where
  "world0 email =
     \<lparr>flow_creds = Inr creds0, get_profile = Inr email,
      workflow = (\<lambda>p. Inr ''Dear Sir''),
      workflow_demo = (\<lambda>p. Inr (''Dear Sir'', ''Invoice 123'')),
      as_bytes = refuse_embedded_header,
      drafts_create = (\<lambda>m. Inr (Some ''r-1'')),
      messages_send = (\<lambda>m. None),
      drafts_delete = (\<lambda>d. None)\<rparr>"

definition world_delete_fails :: "string \<Rightarrow> world" where
  "world_delete_fails email =
     (world0 email)\<lparr>drafts_delete := (\<lambda>d. Some (CollaboratorError ''HttpError 404''))\<rparr>"

definition world_empty_content :: "string \<Rightarrow> world" where
  "world_empty_content email =
     (world0 email)\<lparr>workflow_demo := (\<lambda>p. Inr ([], ''Invoice 123''))\<rparr>"

definition world_header_line :: "string \<Rightarrow> world" where
  "world_header_line email =
     (world0 email)\<lparr>workflow_demo :=
        (\<lambda>p. Inr (''Dear Sir'', ''Hi'' @ [CHR 0x0A] @ ''Bcc: evil@x.com''))\<rparr>"

definition click :: "button \<Rightarrow> string \<Rightarrow> string \<Rightarrow> inputs" where
  "click b to cc =
     \<lparr>clicked = Some b, user_prompt = ''Follow up on invoice #123'',
      to_email = to, cc_email = cc, subject_text = ''Invoice 123''\<rparr>"

definition no_files :: fs where
  "no_files = Map.empty"

definition token_of :: "string \<Rightarrow> fs" where
  "token_of email = [token_file email \<mapsto> to_json creds0]"

definition anonymous :: session where
  "anonymous = \<lparr>user_service = None, user_email = None\<rparr>"


definition anonymous_demo :: session_demo where
  "anonymous_demo =
     \<lparr>user_service = None, user_email = None,
      generated_email = None, generated_subject = None, generated_to = None,
      generated_cc = None, draft_id = None\<rparr>"

definition logged_in_demo :: "string \<Rightarrow> session_demo" where
  "logged_in_demo email =
     \<lparr>user_service = Some (Service creds0), user_email = Some email,
      generated_email = None, generated_subject = None, generated_to = None,
      generated_cc = None, draft_id = None\<rparr>"

definition pending_demo :: "string \<Rightarrow> session_demo" where
  "pending_demo email =
     \<lparr>user_service = Some (Service creds0), user_email = Some email,
      generated_email = Some ''Dear Sir'', generated_subject = Some ''Invoice 123'',
      generated_to = Some [''a@x.com'', ''b@y.com''],
      generated_cc = None, draft_id = Some ''r-1''\<rparr>"

section \<open>Properties of the string primitives\<close>

lemma split_char_not_Nil: "split_char sep s \<noteq> []"
  by (induction s) (auto split: list.splits)

lemma split_char_no_sep: "sep \<notin> set s \<Longrightarrow> split_char sep s = [s]"
  by (induction s) auto

lemma split_char_sep: "sep \<in> set s \<Longrightarrow> \<exists>w ws. split_char sep s = w # ws \<and> ws \<noteq> []"
proof (induction s)
  case Nil
  then show ?case by simp
next
  case (Cons c cs)
  show ?case
  proof (cases "c = sep")
    case True
    then show ?thesis by (simp add: split_char_not_Nil)
  next
    case False
    with Cons.prems have "sep \<in> set cs" by simp
    with Cons.IH obtain w ws where "split_char sep cs = w # ws" "ws \<noteq> []" by blast
    with False show ?thesis by simp
  qed
qed

lemma takeWhile_snoc_sep:
  "takeWhile (\<lambda>c. c \<noteq> sep) (xs @ [sep]) = takeWhile (\<lambda>c. c \<noteq> sep) xs"
  by (induction xs) auto

lemma last_split_char: "last (split_char sep s) = rev (takeWhile (\<lambda>c. c \<noteq> sep) (rev s))"
proof (induction s)
  case Nil
  then show ?case by simp
next
  case (Cons c cs)
  show ?case
  proof (cases "c = sep")
    case True
    then show ?thesis using Cons split_char_not_Nil[of sep cs]
      by (simp add: takeWhile_snoc_sep)
  next
    case False
    show ?thesis
    proof (cases "sep \<in> set cs")
      case True
      then obtain w ws where sp: "split_char sep cs = w # ws" "ws \<noteq> []"
        using split_char_sep by blast
      from True have "takeWhile (\<lambda>c. c \<noteq> sep) (rev cs @ [c]) = takeWhile (\<lambda>c. c \<noteq> sep) (rev cs)"
        by (intro takeWhile_append1[where x = sep]) auto
      with sp Cons.IH False show ?thesis by simp
    next
      case F2: False
      then show ?thesis using False by (simp add: split_char_no_sep takeWhile_append)
    qed
  qed
qed

lemma last_split_char_domain_of: "last (split_char CHR ''@'' e) = domain_of e"
  by (simp add: last_split_char domain_of_def)

lemma takeWhile_append_sep:
  "takeWhile (\<lambda>c. c \<noteq> sep) (xs @ sep # ys) = takeWhile (\<lambda>c. c \<noteq> sep) xs"
  by (induction xs) auto

lemma domain_of_append_at: "domain_of (l @ CHR ''@'' # d) = domain_of d"
  by (simp add: domain_of_def takeWhile_append_sep)

lemma of_char_lower_char:
  "(of_char (lower_char c) :: nat) =
     (let n = of_char c
      in if (65 \<le> n \<and> n \<le> 90) \<or> (192 \<le> n \<and> n \<le> 214) \<or> (216 \<le> n \<and> n \<le> 222)
         then n + 32 else n)"
  by (auto simp: lower_char_def Let_def)

lemma lower_char_at: "lower_char c = CHR ''@'' \<longleftrightarrow> c = CHR ''@''"
proof
  assume "lower_char c = CHR ''@''"
  then have "(of_char (lower_char c) :: nat) = 64" by simp
  then have "(of_char c :: nat) = 64"
    by (simp add: of_char_lower_char Let_def split: if_splits)
  then have "(of_char c :: nat) = of_char CHR ''@''" by simp
  then show "c = CHR ''@''" by (simp only: of_char_eq_iff)
next
  assume "c = CHR ''@''"
  then show "lower_char c = CHR ''@''" by (simp add: lower_char_def)
qed

lemma domain_of_lower: "domain_of (lower e) = lower (domain_of e)"
proof -
  have "takeWhile (\<lambda>c. c \<noteq> CHR ''@'') (map lower_char xs) =
        map lower_char (takeWhile (\<lambda>c. c \<noteq> CHR ''@'') xs)" for xs
    by (induction xs) (auto simp: lower_char_at)
  then show ?thesis by (simp add: domain_of_def lower_def rev_map)
qed

lemma split_char_pieces: "\<Union> (set ` set (split_char sep s)) = set s - {sep}"
proof (induction s)
  case Nil
  then show ?case by simp
next
  case (Cons c cs)
  then show ?case
    by (cases "split_char sep cs") (auto simp: split_char_not_Nil)
qed

lemma strip_Nil_iff: "strip p = [] \<longleftrightarrow> (\<forall>c\<in>set p. isspace c)"
proof
  assume "strip p = []"
  then have a: "\<forall>x\<in>set (dropWhile isspace p). isspace x"
    by (simp add: strip_def dropWhile_eq_Nil_conv)
  have "dropWhile isspace p = []"
  proof (rule ccontr)
    assume n: "dropWhile isspace p \<noteq> []"
    from hd_dropWhile[OF n] hd_in_set[OF n] a show False by blast
  qed
  then show "\<forall>c\<in>set p. isspace c" by (simp only: dropWhile_eq_Nil_conv)
next
  assume "\<forall>c\<in>set p. isspace c"
  then have "dropWhile isspace p = []" by (simp only: dropWhile_eq_Nil_conv)
  then show "strip p = []" by (simp only: strip_def rev.simps dropWhile.simps)
qed

lemma not_isspace_comma: "\<not> isspace CHR '',''"
  by (simp add: isspace_def)

lemma parse_emails_Nil_iff:
  "parse_emails s \<noteq> [] \<longleftrightarrow> (\<exists>c\<in>set s. c \<noteq> CHR '','' \<and> \<not> isspace c)"
proof -
  have "parse_emails s \<noteq> [] \<longleftrightarrow> (\<exists>p\<in>set (split_char CHR '','' s). strip p \<noteq> [])"
    by (simp add: parse_emails_def filter_empty_conv)
  also have "\<dots> \<longleftrightarrow> (\<exists>c\<in>\<Union> (set ` set (split_char CHR '','' s)). \<not> isspace c)"
    by (auto simp: strip_Nil_iff)
  also have "\<dots> \<longleftrightarrow> (\<exists>c\<in>set s. c \<noteq> CHR '','' \<and> \<not> isspace c)"
    by (auto simp: split_char_pieces)
  finally show ?thesis .
qed

lemma strip_trimmed:
  assumes "strip p \<noteq> []"
  shows "\<not> isspace (hd (strip p)) \<and> \<not> isspace (last (strip p))"
proof -
  let ?t = "dropWhile isspace p"
  let ?u = "dropWhile isspace (rev ?t)"
  from assms have u: "?u \<noteq> []" by (simp add: strip_def)
  have t: "?t \<noteq> []"
  proof
    assume "?t = []"
    then have "?u = []" by (simp only: rev.simps dropWhile.simps)
    with u show False by simp
  qed
  have "last (strip p) = hd ?u" using u by (simp add: strip_def last_rev)
  then have l: "\<not> isspace (last (strip p))" using hd_dropWhile[OF u] by simp
  have "rev ?t = takeWhile isspace (rev ?t) @ ?u" by simp
  then have "?t = rev ?u @ rev (takeWhile isspace (rev ?t))"
    by (metis rev_append rev_rev_ident)
  then have "hd ?t = hd (rev ?u)" using u by (metis hd_append2 rev_is_Nil_conv)
  then have "\<not> isspace (hd (strip p))" using hd_dropWhile[OF t] by (simp add: strip_def)
  with l show ?thesis by simp
qed

lemma parse_emails_trimmed:
  "e \<in> set (parse_emails s) \<Longrightarrow> e \<noteq> [] \<and> \<not> isspace (hd e) \<and> \<not> isspace (last e)"
  by (auto simp: parse_emails_def strip_trimmed)

lemma parse_example: "parse_emails ''a@x.com, b@y.com '' = [''a@x.com'', ''b@y.com'']"
  by code_simp

lemma parse_empty: "parse_emails [] = []"
  by code_simp

lemma replace_example: "replace_newlines ''Dear Sir'' = ''Dear Sir''"
  by code_simp

lemma encodes_example:
  "as_bytes (world0 email)
     (html_message [''a@x.com'', ''b@y.com''] (Some ''Invoice 123'') ''Dear Sir'' None) = None"
  "as_bytes (world0 email)
     (html_message [''a@x.com'', ''b@y.com''] (Some ''Invoice 123'') ''Dear Sir''
        (Some [''boss@iands.com''])) = None"
  "as_bytes (world0 email) (html_message [] (Some ''Invoice 123'') ''Dear Sir'' None) = None"
  "as_bytes (world0 email)
     \<lparr>subtype = ''plain'', payload = ''Dear Sir'', to_hdr = ''a@x.com'',
      subject_hdr = Some ''Invoice 123'', cc_hdr = None\<rparr> = None"
  by (simp_all add: world0_def refuse_embedded_header_def html_message_def)

lemma header_line_example:
  "embedded_header (''Hi'' @ [CHR 0x0A] @ ''Bcc: evil@x.com'')"
  by simp

section \<open>Unfolding one run of a script\<close>

lemmas app_defs = app_def auth_ui_def hard_ui_block_def email_generation_def start_def
lemmas app_demo_defs = app_demo_def auth_ui_demo_def email_generation_demo_def
  human_approval_def start_def

section \<open>The access gate\<close>

lemma is_allowed_user_domain: "is_allowed_user e \<longleftrightarrow> lower (domain_of e) \<in> ALLOWED_DOMAINS"
  by (simp add: is_allowed_user_def last_split_char_domain_of)

lemma is_allowed_user_demo_domain: "is_allowed_user_demo e \<longleftrightarrow> lower (domain_of e) \<in> ALLOWED_DOMAINS"
  by (simp add: is_allowed_user_demo_def last_split_char_domain_of)

lemma is_allowed_user_demo_eq: "is_allowed_user_demo e = is_allowed_user e"
  by (simp add: is_allowed_user_demo_def is_allowed_user_def)

text \<open>
  Claim C1. For every string \<open>e\<close>, both variants' \<open>is_allowed_user\<close> return true exactly
  when the domain of \<open>e\<close> (what follows its last \<^verbatim>\<open>@\<close>), put in lower case, is a member
  of the fixed allow-list. The answer does not depend on the local part, nor on the
  case of the letters of the domain: two addresses whose domains agree up to case get
  the same answer whatever their local parts are. The function reads nothing but its
  argument and the constant allow-list.
\<close>

theorem is_allowed_user_domain_membership:
  "(is_allowed_user e \<longleftrightarrow> lower (domain_of e) \<in> ALLOWED_DOMAINS) \<and>
   (is_allowed_user_demo e \<longleftrightarrow> lower (domain_of e) \<in> ALLOWED_DOMAINS) \<and>
   (lower d = lower d' \<longrightarrow>
      is_allowed_user (l @ CHR ''@'' # d) = is_allowed_user (l' @ CHR ''@'' # d') \<and>
      is_allowed_user_demo (l @ CHR ''@'' # d) = is_allowed_user_demo (l' @ CHR ''@'' # d'))"
proof -
  have "lower (domain_of d) = lower (domain_of d')" if "lower d = lower d'"
    using that domain_of_lower[of d] domain_of_lower[of d'] by simp
  then show ?thesis
    by (simp add: is_allowed_user_domain is_allowed_user_demo_domain domain_of_append_at)
qed

theorem is_allowed_user_domain_membership_witness:
  "lower ''IANDS.com'' = lower ''iands.COM'' \<and>
   is_allowed_user ''Bob.Smith@IANDS.com'' \<and> is_allowed_user ''eve@iands.COM'' \<and>
   is_allowed_user_demo ''Bob.Smith@IANDS.com'' \<and> is_allowed_user_demo ''eve@iands.COM'' \<and>
   lower (domain_of ''Bob.Smith@IANDS.com'') \<in> ALLOWED_DOMAINS"
proof -
  have h: "lower ''IANDS.com'' = lower ''iands.COM''"
    by code_simp
  have a: "lower (domain_of ''Bob.Smith@IANDS.com'') \<in> ALLOWED_DOMAINS"
    by code_simp
  note t = is_allowed_user_domain_membership
    [of "''Bob.Smith@IANDS.com''" "''IANDS.com''" "''iands.COM''" "''Bob.Smith''" "''eve''"]
  from t a have b: "is_allowed_user ''Bob.Smith@IANDS.com'' \<and> is_allowed_user_demo ''Bob.Smith@IANDS.com''"
    by blast
  from t h have
    "is_allowed_user (''Bob.Smith'' @ CHR ''@'' # ''IANDS.com'') =
       is_allowed_user (''eve'' @ CHR ''@'' # ''iands.COM'') \<and>
     is_allowed_user_demo (''Bob.Smith'' @ CHR ''@'' # ''IANDS.com'') =
       is_allowed_user_demo (''eve'' @ CHR ''@'' # ''iands.COM'')"
    by blast
  then have "is_allowed_user ''Bob.Smith@IANDS.com'' = is_allowed_user ''eve@iands.COM'' \<and>
     is_allowed_user_demo ''Bob.Smith@IANDS.com'' = is_allowed_user_demo ''eve@iands.COM''"
    by simp
  with b h a show ?thesis by blast
qed

text \<open>
  Claim C10. A string with no \<^verbatim>\<open>@\<close> is its own domain for \<open>is_allowed_user\<close>: the whole
  string in lower case is looked up in the allow-list. In particular the bare domain
  \<^verbatim>\<open>iands.com\<close> passes the gate in both variants.
\<close>

theorem is_allowed_user_no_at:
  "(CHR ''@'' \<notin> set e \<longrightarrow>
      (is_allowed_user e \<longleftrightarrow> lower e \<in> ALLOWED_DOMAINS) \<and>
      (is_allowed_user_demo e \<longleftrightarrow> lower e \<in> ALLOWED_DOMAINS)) \<and>
   is_allowed_user ''iands.com'' \<and> is_allowed_user_demo ''iands.com''"
proof -
  have "is_allowed_user ''iands.com''" "is_allowed_user_demo ''iands.com''"
    by code_simp+
  then show ?thesis
    by (simp add: is_allowed_user_def is_allowed_user_demo_def split_char_no_sep)
qed

theorem is_allowed_user_no_at_witness:
  "CHR ''@'' \<notin> set ''KOGO.ai'' \<and> is_allowed_user ''KOGO.ai'' \<and> is_allowed_user_demo ''KOGO.ai''"
proof -
  have h: "CHR ''@'' \<notin> set ''KOGO.ai''" by simp
  have a: "lower ''KOGO.ai'' \<in> ALLOWED_DOMAINS"
    by code_simp
  from is_allowed_user_no_at[of "''KOGO.ai''"] h a show ?thesis by blast
qed

section \<open>Authentication\<close>

text \<open>
  Claim C2, as stated: in the basic variant a credential whose address fails the
  allow-list check is written to the token file before the error is raised. The code
  does the opposite. Authenticating \<^verbatim>\<open>mallory@evil.com\<close> with no token file on disk
  raises PermissionError and leaves no token file for that address.
\<close>

theorem get_gmail_service_denied_counterexample:
  "\<not> is_allowed_user ''mallory@evil.com'' \<and>
   fst (get_gmail_service (world0 ''mallory@evil.com'') no_files) =
     Inl (PermissionError
       ''Access denied for mallory@evil.com. Only iands.com and kogo.ai users are allowed.'') \<and>
   snd (get_gmail_service (world0 ''mallory@evil.com'') no_files)
     (token_file ''mallory@evil.com'') = None"
proof -
  have d: "\<not> is_allowed_user ''mallory@evil.com''" by code_simp
  then show ?thesis
    by (simp add: get_gmail_service_def world0_def no_files_def)
qed

text \<open>
  Claim C2, amended. In both variants \<open>get_gmail_service\<close> checks the allow-list before
  it persists anything: when the OAuth flow and the profile request succeed and the
  address fails the check, PermissionError is raised and the token files are exactly
  what they were before the call.
\<close>

theorem get_gmail_service_check_before_write:
  assumes "flow_creds w = Inr c" and "get_profile w = Inr e" and "\<not> is_allowed_user e"
  shows "get_gmail_service w fs =
           (Inl (PermissionError (''Access denied for '' @ e @
              ''. Only iands.com and kogo.ai users are allowed.'')), fs) \<and>
         get_gmail_service_demo w fs =
           (Inl (PermissionError ''Access denied: unauthorized domain''), fs)"
  using assms by (simp add: get_gmail_service_def get_gmail_service_demo_def is_allowed_user_demo_eq)

theorem get_gmail_service_check_before_write_witness:
  "flow_creds (world0 ''mallory@evil.com'') = Inr creds0 \<and>
   get_profile (world0 ''mallory@evil.com'') = Inr ''mallory@evil.com'' \<and>
   \<not> is_allowed_user ''mallory@evil.com'' \<and>
   get_gmail_service (world0 ''mallory@evil.com'') (token_of ''alice@iands.com'') =
     (Inl (PermissionError
        ''Access denied for mallory@evil.com. Only iands.com and kogo.ai users are allowed.''),
      token_of ''alice@iands.com'') \<and>
   get_gmail_service_demo (world0 ''mallory@evil.com'') (token_of ''alice@iands.com'') =
     (Inl (PermissionError ''Access denied: unauthorized domain''), token_of ''alice@iands.com'')"
proof -
  have a: "flow_creds (world0 ''mallory@evil.com'') = Inr creds0"
    and b: "get_profile (world0 ''mallory@evil.com'') = Inr ''mallory@evil.com''"
    by (simp_all add: world0_def)
  have d: "\<not> is_allowed_user ''mallory@evil.com''" by code_simp
  from get_gmail_service_check_before_write[OF a b d, of "token_of ''alice@iands.com''"] a b d
  show ?thesis by simp
qed

text \<open>
  Claim C6. In both variants, a click on Authenticate in state Anonymous whose OAuth
  flow yields an address outside the allow-list leaves the session as it was, so
  Anonymous, touches no file, issues no call, and shows the operator the access-denied
  error.
\<close>

theorem authenticate_denied:
  assumes "Anonymous s" and "Anonymous s'"
    and "clicked inp = Some Authenticate_Gmail"
    and "flow_creds w = Inr c" and "get_profile w = Inr e" and "\<not> is_allowed_user e"
  shows "state (app w inp s fs) = s \<and> Anonymous (state (app w inp s fs)) \<and>
         files (app w inp s fs) = fs \<and> calls (app w inp s fs) = [] \<and>
         shown (app w inp s fs) =
           [Error (''Authentication failed: Access denied for '' @ e @
              ''. Only iands.com and kogo.ai users are allowed.'')] \<and>
         state (app_demo w inp s' fs) = s' \<and> Anonymous (state (app_demo w inp s' fs)) \<and>
         files (app_demo w inp s' fs) = fs \<and> calls (app_demo w inp s' fs) = [] \<and>
         shown (app_demo w inp s' fs) = [Error ''Access denied: unauthorized domain'']"
proof -
  from assms have basic:
    "app w inp s fs =
       (start s fs)\<lparr>shown := [Error (''Authentication failed: Access denied for '' @ e @
              ''. Only iands.com and kogo.ai users are allowed.'')]\<rparr>"
    by (simp add: app_defs get_gmail_service_def Anonymous_def)
  from assms have auth:
    "auth_ui_demo w inp (start s' fs) =
       (start s' fs)\<lparr>shown := [Error ''Access denied: unauthorized domain'']\<rparr>"
    by (simp add: auth_ui_demo_def start_def get_gmail_service_demo_def Anonymous_def
        is_allowed_user_demo_eq)
  from assms have gen:
    "email_generation_demo w inp ((start s' fs)\<lparr>shown := [Error ''Access denied: unauthorized domain'']\<rparr>)
       = (start s' fs)\<lparr>shown := [Error ''Access denied: unauthorized domain'']\<rparr>"
    by (simp add: email_generation_demo_def start_def Anonymous_def)
  from assms have demo:
    "state (app_demo w inp s' fs) = s' \<and>
     files (app_demo w inp s' fs) = fs \<and> calls (app_demo w inp s' fs) = [] \<and>
     shown (app_demo w inp s' fs) = [Error ''Access denied: unauthorized domain'']"
    unfolding app_demo_def auth gen Let_def
    by (simp add: human_approval_def start_def split: option.splits)
  from basic demo assms(1,2) show ?thesis by (simp add: start_def)
qed

theorem authenticate_denied_witness:
  "Anonymous anonymous \<and> Anonymous anonymous_demo \<and>
   \<not> is_allowed_user ''mallory@evil.com'' \<and>
   state (app (world0 ''mallory@evil.com'') (click Authenticate_Gmail [] []) anonymous no_files) =
     anonymous \<and>
   shown (app (world0 ''mallory@evil.com'') (click Authenticate_Gmail [] []) anonymous no_files) =
     [Error ''Authentication failed: Access denied for mallory@evil.com. Only iands.com and kogo.ai users are allowed.''] \<and>
   state (app_demo (world0 ''mallory@evil.com'') (click Authenticate_Gmail [] []) anonymous_demo
            no_files) = anonymous_demo \<and>
   shown (app_demo (world0 ''mallory@evil.com'') (click Authenticate_Gmail [] []) anonymous_demo
            no_files) = [Error ''Access denied: unauthorized domain'']"
proof -
  have a: "Anonymous anonymous" "Anonymous anonymous_demo"
    by (simp_all add: Anonymous_def anonymous_def anonymous_demo_def)
  have b: "clicked (click Authenticate_Gmail [] []) = Some Authenticate_Gmail"
    by (simp add: click_def)
  have c: "flow_creds (world0 ''mallory@evil.com'') = Inr creds0"
    "get_profile (world0 ''mallory@evil.com'') = Inr ''mallory@evil.com''"
    by (simp_all add: world0_def)
  have d: "\<not> is_allowed_user ''mallory@evil.com''" by code_simp
  from authenticate_denied[OF a b c d, of no_files] a d show ?thesis by simp
qed

section \<open>The allow-list check before generation\<close>

text \<open>
  The basic variant checks the session's address again before it shows the generation
  section (lines 137-139): a run on a session holding a non-empty address outside the
  allow-list issues no call at all.
\<close>

lemma app_hard_ui_block:
  assumes "user_email s = Some e" and "e \<noteq> []" and "\<not> is_allowed_user e"
  shows "calls (app w inp s fs) = []"
  using assms
  by (auto simp: app_defs Let_def get_gmail_service_def split: option.splits sum.splits prod.splits)
























section \<open>Logout\<close>

text \<open>
  In the basic variant Logout removes the token file of the session's address and
  Switch Account leaves every file in place; both end in state Anonymous.
\<close>

lemma app_logout_removes_token:
  assumes "user_service s = Some svc" and "user_email s = Some e" and "clicked inp = Some Logout"
  shows "files (app w inp s fs) = fs(token_file e := None) \<and> Anonymous (state (app w inp s fs))"
  using assms by (auto simp: app_defs Let_def Anonymous_def)

lemma app_switch_account_keeps_token:
  assumes "user_service s = Some svc" and "clicked inp = Some Switch_Account"
  shows "files (app w inp s fs) = fs \<and> Anonymous (state (app w inp s fs))"
  using assms by (auto simp: app_defs Let_def Anonymous_def)

text \<open>
  Claim C4. The approval variant's Logout clears the session but removes no file:
  after Logout from a session authenticated as \<^verbatim>\<open>alice@iands.com\<close> the token file of
  that address is still on disk with its content.
\<close>

theorem approval_variant_logout_keeps_token:
  "files (app_demo (world0 ''alice@iands.com'') (click Logout [] [])
            (logged_in_demo ''alice@iands.com'') (token_of ''alice@iands.com''))
     (token_file ''alice@iands.com'') = Some ''token-material'' \<and>
   Anonymous (state (app_demo (world0 ''alice@iands.com'') (click Logout [] [])
            (logged_in_demo ''alice@iands.com'') (token_of ''alice@iands.com'')))"
  by (simp add: app_demo_defs click_def logged_in_demo_def token_of_def creds0_def Anonymous_def)

section \<open>Generate and create draft\<close>

text \<open>
  When the message cannot be encoded, the exception of \<^verbatim>\<open>as_bytes\<close> leaves
  \<open>create_gmail_draft\<close> before the request: the run has called the workflow only, the
  generated fields are stored and the draft id is what it was. So it is for the subject
  \<^verbatim>\<open>"Hi\nBcc: evil@x.com"\<close>.
\<close>

lemma generate_not_encoded:
  assumes "user_service s = Some svc" and "clicked inp = Some Generate_Draft"
    and "workflow_demo w (user_prompt inp) = Inr (content, subj)"
    and "as_bytes w
           (html_message (parse_emails (to_email inp)) (Some subj) content
              (if cc_email inp \<noteq> [] then Some (parse_emails (cc_email inp)) else None)) = Some e"
  shows "calls (app_demo w inp s fs) = [Workflow_Invoke (user_prompt inp)] \<and>
         raised (app_demo w inp s fs) = Some e \<and>
         draft_id (state (app_demo w inp s fs)) = draft_id s"
  using assms by (simp add: app_demo_defs create_gmail_draft_demo_def Let_def)

lemma header_line_stops_draft:
  "calls (app_demo (world_header_line ''alice@iands.com'')
            (click Generate_Draft ''a@x.com, b@y.com '' [])
            (logged_in_demo ''alice@iands.com'') no_files) =
     [Workflow_Invoke ''Follow up on invoice #123''] \<and>
   raised (app_demo (world_header_line ''alice@iands.com'')
            (click Generate_Draft ''a@x.com, b@y.com '' [])
            (logged_in_demo ''alice@iands.com'') no_files) =
     Some (HeaderParseError ''header value appears to contain an embedded header'') \<and>
   draft_id (state (app_demo (world_header_line ''alice@iands.com'')
            (click Generate_Draft ''a@x.com, b@y.com '' [])
            (logged_in_demo ''alice@iands.com'') no_files)) = None"
  by (simp add: app_demo_defs world_header_line_def world0_def click_def logged_in_demo_def
      create_gmail_draft_demo_def html_message_def refuse_embedded_header_def Let_def)

text \<open>
  Claim C7, as stated: after a successful Generate and Draft every field of the
  pending draft, the cc among them, is populated and the state is
  Authenticated+PendingApproval. With the optional CC input left empty the run
  succeeds and \<open>generated_cc\<close> is \<open>None\<close>. With an empty generated content the draft
  is created and success is shown, yet the test of line 185 fails on the empty string
  and the state is not Authenticated+PendingApproval.
\<close>

theorem generate_without_cc_counterexample:
  "user_service (logged_in_demo ''alice@iands.com'') = Some (Service creds0) \<and>
   no_pending_draft (logged_in_demo ''alice@iands.com'') \<and>
   state (app_demo (world0 ''alice@iands.com'') (click Generate_Draft ''a@x.com, b@y.com '' [])
            (logged_in_demo ''alice@iands.com'') no_files) = pending_demo ''alice@iands.com'' \<and>
   generated_cc (state (app_demo (world0 ''alice@iands.com'')
            (click Generate_Draft ''a@x.com, b@y.com '' [])
            (logged_in_demo ''alice@iands.com'') no_files)) = None \<and>
   raised (app_demo (world0 ''alice@iands.com'') (click Generate_Draft ''a@x.com, b@y.com '' [])
            (logged_in_demo ''alice@iands.com'') no_files) = None \<and>
   calls (app_demo (world_empty_content ''alice@iands.com'')
            (click Generate_Draft ''a@x.com, b@y.com '' ''boss@iands.com'')
            (logged_in_demo ''alice@iands.com'') no_files) =
     [Workflow_Invoke ''Follow up on invoice #123'',
      Drafts_Create (Service creds0)
        (html_message [''a@x.com'', ''b@y.com''] (Some ''Invoice 123'') []
           (Some [''boss@iands.com'']))] \<and>
   shown (app_demo (world_empty_content ''alice@iands.com'')
            (click Generate_Draft ''a@x.com, b@y.com '' ''boss@iands.com'')
            (logged_in_demo ''alice@iands.com'') no_files) =
     [Info ''Logged in as alice@iands.com'', Success ''Draft created. Please review below.''] \<and>
   \<not> PendingApproval (state (app_demo (world_empty_content ''alice@iands.com'')
            (click Generate_Draft ''a@x.com, b@y.com '' ''boss@iands.com'')
            (logged_in_demo ''alice@iands.com'') no_files))"
proof -
  have cc: "parse_emails ''boss@iands.com'' = [''boss@iands.com'']" by code_simp
  have e: "as_bytes (world_empty_content ''alice@iands.com'')
     (html_message [''a@x.com'', ''b@y.com''] (Some ''Invoice 123'') []
        (Some [''boss@iands.com''])) = None"
    by (simp add: world_empty_content_def world0_def refuse_embedded_header_def html_message_def)
  have a: "app_demo (world0 ''alice@iands.com'') (click Generate_Draft ''a@x.com, b@y.com '' [])
            (logged_in_demo ''alice@iands.com'') no_files =
      (start (pending_demo ''alice@iands.com'') no_files)
        \<lparr>calls := [Workflow_Invoke ''Follow up on invoice #123'',
            Drafts_Create (Service creds0)
              (html_message [''a@x.com'', ''b@y.com''] (Some ''Invoice 123'') ''Dear Sir'' None)],
         shown := [Info ''Logged in as alice@iands.com'',
            Success ''Draft created. Please review below.'']\<rparr>"
    using encodes_example(1)[of "''alice@iands.com''"]
    by (simp add: app_demo_defs world0_def click_def logged_in_demo_def pending_demo_def
        create_gmail_draft_demo_def parse_example Let_def)
  have b: "app_demo (world_empty_content ''alice@iands.com'')
            (click Generate_Draft ''a@x.com, b@y.com '' ''boss@iands.com'')
            (logged_in_demo ''alice@iands.com'') no_files =
      (start ((pending_demo ''alice@iands.com'')
                \<lparr>generated_email := Some [], generated_cc := Some [''boss@iands.com'']\<rparr>)
             no_files)
        \<lparr>calls := [Workflow_Invoke ''Follow up on invoice #123'',
            Drafts_Create (Service creds0)
              (html_message [''a@x.com'', ''b@y.com''] (Some ''Invoice 123'') []
                 (Some [''boss@iands.com'']))],
         shown := [Info ''Logged in as alice@iands.com'',
            Success ''Draft created. Please review below.'']\<rparr>"
    using e
    by (simp add: app_demo_defs world_empty_content_def world0_def click_def logged_in_demo_def
        pending_demo_def create_gmail_draft_demo_def parse_example cc Let_def)
  show ?thesis unfolding a b
    by (simp add: start_def pending_demo_def logged_in_demo_def no_pending_draft_def
        PendingApproval_def)
qed

text \<open>
  Claim C7, amended. In the approval variant, a click on Generate with a service in the
  session and the recipients input \<^verbatim>\<open>"a@x.com, b@y.com "\<close>, where the workflow returns
  a content and a subject, the message is encoded and the draft call returns an id,
  stores the recipients \<^verbatim>\<open>["a@x.com", "b@y.com"]\<close>, the content, the subject and the
  draft id, stores as cc the parsed CC input when that input is non-empty and \<open>None\<close>
  when it is empty, issues the workflow call and then exactly one draft-create call,
  shows success and leaves service and address unchanged. The state it ends in is
  Authenticated+PendingApproval exactly when the content is non-empty.
\<close>

theorem generate_and_draft:
  assumes "user_service s = Some svc" and "clicked inp = Some Generate_Draft"
    and "to_email inp = ''a@x.com, b@y.com ''"
    and "workflow_demo w (user_prompt inp) = Inr (content, subj)"
    and "as_bytes w
           (html_message [''a@x.com'', ''b@y.com''] (Some subj) content
              (if cc_email inp \<noteq> [] then Some (parse_emails (cc_email inp)) else None)) = None"
    and "drafts_create w
           (html_message [''a@x.com'', ''b@y.com''] (Some subj) content
              (if cc_email inp \<noteq> [] then Some (parse_emails (cc_email inp)) else None)) =
         Inr (Some d)"
  shows "generated_to (state (app_demo w inp s fs)) = Some [''a@x.com'', ''b@y.com''] \<and>
         generated_email (state (app_demo w inp s fs)) = Some content \<and>
         generated_subject (state (app_demo w inp s fs)) = Some subj \<and>
         generated_cc (state (app_demo w inp s fs)) =
           (if cc_email inp \<noteq> [] then Some (parse_emails (cc_email inp)) else None) \<and>
         draft_id (state (app_demo w inp s fs)) = Some d \<and>
         user_service (state (app_demo w inp s fs)) = Some svc \<and>
         user_email (state (app_demo w inp s fs)) = user_email s \<and>
         (PendingApproval (state (app_demo w inp s fs)) \<longleftrightarrow> content \<noteq> []) \<and>
         calls (app_demo w inp s fs) =
           [Workflow_Invoke (user_prompt inp),
            Drafts_Create svc
              (html_message [''a@x.com'', ''b@y.com''] (Some subj) content
                 (if cc_email inp \<noteq> [] then Some (parse_emails (cc_email inp)) else None))] \<and>
         Success ''Draft created. Please review below.'' \<in> set (shown (app_demo w inp s fs)) \<and>
         raised (app_demo w inp s fs) = None"
  using assms
  by (simp add: app_demo_defs create_gmail_draft_demo_def parse_example Let_def
      PendingApproval_def)

theorem generate_and_draft_witness:
  "user_service (logged_in_demo ''alice@iands.com'') = Some (Service creds0) \<and>
   workflow_demo (world0 ''alice@iands.com'')
     (user_prompt (click Generate_Draft ''a@x.com, b@y.com '' ''boss@iands.com'')) =
     Inr (''Dear Sir'', ''Invoice 123'') \<and>
   state (app_demo (world0 ''alice@iands.com'')
            (click Generate_Draft ''a@x.com, b@y.com '' ''boss@iands.com'')
            (logged_in_demo ''alice@iands.com'') no_files) =
     (pending_demo ''alice@iands.com'')\<lparr>generated_cc := Some [''boss@iands.com'']\<rparr> \<and>
   length (calls (app_demo (world0 ''alice@iands.com'')
            (click Generate_Draft ''a@x.com, b@y.com '' ''boss@iands.com'')
            (logged_in_demo ''alice@iands.com'') no_files)) = 2 \<and>
   PendingApproval (state (app_demo (world0 ''alice@iands.com'')
            (click Generate_Draft ''a@x.com, b@y.com '' ''boss@iands.com'')
            (logged_in_demo ''alice@iands.com'') no_files))"
proof -
  let ?w = "world0 ''alice@iands.com''"
  let ?inp = "click Generate_Draft ''a@x.com, b@y.com '' ''boss@iands.com''"
  let ?s = "logged_in_demo ''alice@iands.com''"
  have cc: "parse_emails ''boss@iands.com'' = [''boss@iands.com'']" by code_simp
  have a: "user_service ?s = Some (Service creds0)" by (simp add: logged_in_demo_def)
  have b: "clicked ?inp = Some Generate_Draft" by (simp add: click_def)
  have c: "to_email ?inp = ''a@x.com, b@y.com ''" by (simp add: click_def)
  have d: "workflow_demo ?w (user_prompt ?inp) = Inr (''Dear Sir'', ''Invoice 123'')"
    by (simp add: world0_def)
  have e: "as_bytes ?w
           (html_message [''a@x.com'', ''b@y.com''] (Some ''Invoice 123'') ''Dear Sir''
              (if cc_email ?inp \<noteq> [] then Some (parse_emails (cc_email ?inp)) else None)) = None"
    using encodes_example(2)[of "''alice@iands.com''"] by (simp add: click_def cc)
  have f: "drafts_create ?w
           (html_message [''a@x.com'', ''b@y.com''] (Some ''Invoice 123'') ''Dear Sir''
              (if cc_email ?inp \<noteq> [] then Some (parse_emails (cc_email ?inp)) else None)) =
         Inr (Some ''r-1'')"
    by (simp add: world0_def)
  have g: "cc_email ?inp = ''boss@iands.com''" "user_email ?s = Some ''alice@iands.com''"
    by (simp_all add: click_def logged_in_demo_def)
  note t = generate_and_draft[OF a b c d e f, of no_files]
  from t have st: "state (app_demo ?w ?inp ?s no_files) =
     (pending_demo ''alice@iands.com'')\<lparr>generated_cc := Some [''boss@iands.com'']\<rparr>"
    by (simp add: g cc pending_demo_def)
  from t have n: "length (calls (app_demo ?w ?inp ?s no_files)) = 2" by simp
  from t have pa: "PendingApproval (state (app_demo ?w ?inp ?s no_files))" by simp
  from a d st n pa show ?thesis by blast
qed

text \<open>
  Claim C8, as stated: the draft-creation call never receives an empty recipients list.
  With an empty recipients input the list parses to \<open>[]\<close> and the draft-create call is
  issued all the same, with an empty \<^verbatim>\<open>to\<close> header.
\<close>

theorem draft_without_recipients_counterexample:
  "user_service (logged_in_demo ''alice@iands.com'') = Some (Service creds0) \<and>
   parse_emails [] = [] \<and>
   calls (app_demo (world0 ''alice@iands.com'') (click Generate_Draft [] [])
            (logged_in_demo ''alice@iands.com'') no_files) =
     [Workflow_Invoke ''Follow up on invoice #123'',
      Drafts_Create (Service creds0)
        \<lparr>subtype = ''html'', payload = ''Dear Sir'', to_hdr = [],
         subject_hdr = Some ''Invoice 123'', cc_hdr = None\<rparr>] \<and>
   generated_to (state (app_demo (world0 ''alice@iands.com'') (click Generate_Draft [] [])
            (logged_in_demo ''alice@iands.com'') no_files)) = Some []"
  using encodes_example(3)[of "''alice@iands.com''"]
  by (simp add: app_demo_defs world0_def click_def logged_in_demo_def
      create_gmail_draft_demo_def html_message_def parse_empty replace_example Let_def)

text \<open>
  Claim C8, amended. Nothing guards the recipients. For any recipients input, a click
  on Generate with a service in the session, a workflow that answers and a message
  that is encoded issues exactly one draft-create call, on the list \<open>parse_emails\<close>
  makes of the input, and stores that list. Every entry of the list is non-empty and
  has no whitespace at either end; the list is non-empty exactly when the input has a
  character that is neither a comma nor whitespace.
\<close>

theorem draft_recipients:
  assumes "user_service s = Some svc" and "clicked inp = Some Generate_Draft"
    and "workflow_demo w (user_prompt inp) = Inr (content, subj)"
    and "as_bytes w
           (html_message (parse_emails (to_email inp)) (Some subj) content
              (if cc_email inp \<noteq> [] then Some (parse_emails (cc_email inp)) else None)) = None"
  shows "calls (app_demo w inp s fs) =
           [Workflow_Invoke (user_prompt inp),
            Drafts_Create svc
              (html_message (parse_emails (to_email inp)) (Some subj) content
                 (if cc_email inp \<noteq> [] then Some (parse_emails (cc_email inp)) else None))] \<and>
         generated_to (state (app_demo w inp s fs)) = Some (parse_emails (to_email inp)) \<and>
         (parse_emails (to_email inp) \<noteq> [] \<longleftrightarrow>
            (\<exists>c\<in>set (to_email inp). c \<noteq> CHR '','' \<and> \<not> isspace c)) \<and>
         (\<forall>e\<in>set (parse_emails (to_email inp)).
            e \<noteq> [] \<and> \<not> isspace (hd e) \<and> \<not> isspace (last e))"
proof -
  let ?cc = "if cc_email inp \<noteq> [] then Some (parse_emails (cc_email inp)) else None"
  let ?msg = "html_message (parse_emails (to_email inp)) (Some subj) content ?cc"
  from assms have auth: "auth_ui_demo w inp (start s fs) =
      (start s fs)\<lparr>shown := [Info (''Logged in as '' @ fmt (user_email s))]\<rparr>"
    by (simp add: auth_ui_demo_def start_def)
  have "calls (app_demo w inp s fs) = [Workflow_Invoke (user_prompt inp), Drafts_Create svc ?msg] \<and>
        generated_to (state (app_demo w inp s fs)) = Some (parse_emails (to_email inp))"
  proof (cases "drafts_create w ?msg")
    case (Inl e)
    with assms show ?thesis
      unfolding app_demo_def auth
      by (simp add: email_generation_demo_def create_gmail_draft_demo_def start_def Let_def)
  next
    case (Inr d)
    with assms show ?thesis
      unfolding app_demo_def auth
      by (simp add: email_generation_demo_def create_gmail_draft_demo_def human_approval_def
          start_def Let_def)
  qed
  then show ?thesis
    using parse_emails_Nil_iff[of "to_email inp"] parse_emails_trimmed[of _ "to_email inp"]
    by blast
qed

theorem draft_recipients_witness:
  "user_service (logged_in_demo ''alice@iands.com'') = Some (Service creds0) \<and>
   calls (app_demo (world0 ''alice@iands.com'') (click Generate_Draft ''a@x.com, b@y.com '' [])
            (logged_in_demo ''alice@iands.com'') no_files) =
     [Workflow_Invoke ''Follow up on invoice #123'',
      Drafts_Create (Service creds0)
        (html_message [''a@x.com'', ''b@y.com''] (Some ''Invoice 123'') ''Dear Sir'' None)] \<and>
   parse_emails ''a@x.com, b@y.com '' \<noteq> [] \<and>
   \<not> isspace (last (last (parse_emails ''a@x.com, b@y.com '')))"
proof -
  let ?w = "world0 ''alice@iands.com''"
  let ?inp = "click Generate_Draft ''a@x.com, b@y.com '' []"
  let ?s = "logged_in_demo ''alice@iands.com''"
  have a: "user_service ?s = Some (Service creds0)" by (simp add: logged_in_demo_def)
  have b: "clicked ?inp = Some Generate_Draft" by (simp add: click_def)
  have d: "workflow_demo ?w (user_prompt ?inp) = Inr (''Dear Sir'', ''Invoice 123'')"
    by (simp add: world0_def)
  have g: "to_email ?inp = ''a@x.com, b@y.com ''" "cc_email ?inp = []"
      "user_prompt ?inp = ''Follow up on invoice #123''"
    by (simp_all add: click_def)
  have e: "as_bytes ?w
           (html_message (parse_emails (to_email ?inp)) (Some ''Invoice 123'') ''Dear Sir''
              (if cc_email ?inp \<noteq> [] then Some (parse_emails (cc_email ?inp)) else None)) = None"
    using encodes_example(1)[of "''alice@iands.com''"] by (simp add: g parse_example)
  have m: "''b@y.com'' \<in> set (parse_emails ''a@x.com, b@y.com '')"
    by (simp add: parse_example)
  note t = draft_recipients[OF a b d e, of no_files]
  from t have c: "calls (app_demo ?w ?inp ?s no_files) =
     [Workflow_Invoke ''Follow up on invoice #123'',
      Drafts_Create (Service creds0)
        (html_message [''a@x.com'', ''b@y.com''] (Some ''Invoice 123'') ''Dear Sir'' None)]"
    by (simp add: g parse_example)
  from t m have "\<not> isspace (last ''b@y.com'')" unfolding g by blast
  then have l: "\<not> isspace (last (last (parse_emails ''a@x.com, b@y.com '')))"
    by (simp add: parse_example)
  from a c l show ?thesis by (simp add: parse_example)
qed

section \<open>Human approval: Cancel and Send\<close>

text \<open>
  Claim C9. Cancel from state Authenticated+PendingApproval resets the five fields of
  the pending draft to \<open>None\<close> and changes nothing else in the session: service and
  address are what they were, the state is Authenticated. The run issues no call, so
  neither a send nor a delete, and touches no file.
\<close>

theorem cancel_discards_pending_draft:
  assumes "PendingApproval s" and "clicked inp = Some Cancel"
  shows "state (app_demo w inp s fs) = reset_fields s \<and>
         Authenticated (state (app_demo w inp s fs)) \<and>
         user_service (state (app_demo w inp s fs)) = user_service s \<and>
         user_email (state (app_demo w inp s fs)) = user_email s \<and>
         calls (app_demo w inp s fs) = [] \<and>
         files (app_demo w inp s fs) = fs \<and>
         raised (app_demo w inp s fs) = None"
proof -
  from assms(1) obtain svc body to_list where
    s: "user_service s = Some svc" "generated_email s = Some body" "body \<noteq> []"
       "generated_to s = Some to_list"
    by (auto simp: PendingApproval_def)
  from s assms(2) have "app_demo w inp s fs =
      (start s fs)\<lparr>state := reset_fields s,
        shown := [Info (''Logged in as '' @ fmt (user_email s)), Warning ''Email cancelled'']\<rparr>"
    by (simp add: app_demo_defs Let_def)
  with s show ?thesis
    by (simp add: start_def reset_fields_def Authenticated_def no_pending_draft_def)
qed

theorem cancel_discards_pending_draft_witness:
  "PendingApproval (pending_demo ''alice@iands.com'') \<and>
   state (app_demo (world0 ''alice@iands.com'') (click Cancel [] [])
            (pending_demo ''alice@iands.com'') no_files) = logged_in_demo ''alice@iands.com'' \<and>
   calls (app_demo (world0 ''alice@iands.com'') (click Cancel [] [])
            (pending_demo ''alice@iands.com'') no_files) = []"
proof -
  have p: "PendingApproval (pending_demo ''alice@iands.com'')"
    by (simp add: PendingApproval_def pending_demo_def)
  have b: "clicked (click Cancel [] []) = Some Cancel" by (simp add: click_def)
  have r: "reset_fields (pending_demo ''alice@iands.com'') = logged_in_demo ''alice@iands.com''"
    by (simp add: reset_fields_def pending_demo_def logged_in_demo_def)
  from cancel_discards_pending_draft[OF p b, of "world0 ''alice@iands.com''" no_files] p r
  show ?thesis by simp
qed

text \<open>
  When the message cannot be encoded, the exception of \<^verbatim>\<open>as_bytes\<close> leaves
  \<open>send_gmail_message\<close> before any request: no call is issued and the session is left
  as it was.
\<close>

lemma send_not_encoded:
  assumes "generated_email s = Some body" and "body \<noteq> []" and "generated_to s = Some to_list"
    and "clicked inp = Some Send_Email"
    and "as_bytes w (html_message to_list (generated_subject s) body (generated_cc s)) = Some e"
  shows "calls (app_demo w inp s fs) = [] \<and> state (app_demo w inp s fs) = s \<and>
         raised (app_demo w inp s fs) = Some e"
  using assms
  by (simp add: app_demo_defs send_gmail_message_def Let_def split: option.splits)

text \<open>
  Claim C5, as stated: after Send the pending draft is cleared even when the delete
  call fails, and that failure is not reported as a failure of the send. In the code
  the exception of the delete call leaves \<open>send_gmail_message\<close> and the handler
  uncaught: the send call has succeeded, yet the session still holds the pending
  draft, the run ends with the error and no success message is shown.
\<close>

theorem send_delete_failure_counterexample:
  "PendingApproval (pending_demo ''alice@iands.com'') \<and>
   as_bytes (world_delete_fails ''alice@iands.com'')
     (html_message [''a@x.com'', ''b@y.com''] (Some ''Invoice 123'') ''Dear Sir'' None) = None \<and>
   messages_send (world_delete_fails ''alice@iands.com'')
     (html_message [''a@x.com'', ''b@y.com''] (Some ''Invoice 123'') ''Dear Sir'' None) = None \<and>
   drafts_delete (world_delete_fails ''alice@iands.com'') ''r-1'' =
     Some (CollaboratorError ''HttpError 404'') \<and>
   calls (app_demo (world_delete_fails ''alice@iands.com'') (click Send_Email [] [])
            (pending_demo ''alice@iands.com'') no_files) =
     [Messages_Send (Service creds0)
        (html_message [''a@x.com'', ''b@y.com''] (Some ''Invoice 123'') ''Dear Sir'' None),
      Drafts_Delete (Service creds0) ''r-1''] \<and>
   state (app_demo (world_delete_fails ''alice@iands.com'') (click Send_Email [] [])
            (pending_demo ''alice@iands.com'') no_files) = pending_demo ''alice@iands.com'' \<and>
   \<not> Authenticated (state (app_demo (world_delete_fails ''alice@iands.com'') (click Send_Email [] [])
            (pending_demo ''alice@iands.com'') no_files)) \<and>
   raised (app_demo (world_delete_fails ''alice@iands.com'') (click Send_Email [] [])
            (pending_demo ''alice@iands.com'') no_files) =
     Some (CollaboratorError ''HttpError 404'') \<and>
   Success ''Email sent successfully!'' \<notin>
     set (shown (app_demo (world_delete_fails ''alice@iands.com'') (click Send_Email [] [])
            (pending_demo ''alice@iands.com'') no_files))"
proof -
  have e: "as_bytes (world_delete_fails ''alice@iands.com'')
     (html_message [''a@x.com'', ''b@y.com''] (Some ''Invoice 123'') ''Dear Sir'' None) = None"
    using encodes_example(1)[of "''alice@iands.com''"]
    by (simp add: world_delete_fails_def)
  have "app_demo (world_delete_fails ''alice@iands.com'') (click Send_Email [] [])
            (pending_demo ''alice@iands.com'') no_files =
        (start (pending_demo ''alice@iands.com'') no_files)
          \<lparr>calls := [Messages_Send (Service creds0)
              (html_message [''a@x.com'', ''b@y.com''] (Some ''Invoice 123'') ''Dear Sir'' None),
              Drafts_Delete (Service creds0) ''r-1''],
           shown := [Info ''Logged in as alice@iands.com''],
           raised := Some (CollaboratorError ''HttpError 404'')\<rparr>"
    using e
    by (simp add: app_demo_defs world_delete_fails_def world0_def click_def pending_demo_def
        send_gmail_message_def Let_def)
  then show ?thesis using e
    by (simp add: start_def PendingApproval_def Authenticated_def no_pending_draft_def
        pending_demo_def world_delete_fails_def world0_def)
qed

text \<open>
  Claim C5, amended. Send from state Authenticated+PendingApproval with a non-empty
  draft id, when the message is encoded and the send call succeeds, issues exactly one
  send call and then exactly one delete call, in that order. When the delete call
  succeeds the pending draft is cleared, the state is Authenticated and success is
  shown. When the delete call fails its exception ends the run: the session is left as
  it was, pending draft included, and no success is shown.
\<close>

theorem send_then_delete:
  assumes "PendingApproval s" and "user_service s = Some svc"
    and "generated_email s = Some body" and "generated_to s = Some to_list"
    and "draft_id s = Some d" and "d \<noteq> []"
    and "clicked inp = Some Send_Email"
    and "as_bytes w (html_message to_list (generated_subject s) body (generated_cc s)) = None"
    and "messages_send w (html_message to_list (generated_subject s) body (generated_cc s)) = None"
  shows "calls (app_demo w inp s fs) =
           [Messages_Send svc (html_message to_list (generated_subject s) body (generated_cc s)),
            Drafts_Delete svc d] \<and>
         (case drafts_delete w d of
            None \<Rightarrow>
              state (app_demo w inp s fs) = reset_fields s \<and>
              Authenticated (state (app_demo w inp s fs)) \<and>
              raised (app_demo w inp s fs) = None \<and>
              Success ''Email sent successfully!'' \<in> set (shown (app_demo w inp s fs))
          | Some e \<Rightarrow>
              state (app_demo w inp s fs) = s \<and>
              raised (app_demo w inp s fs) = Some e \<and>
              Success ''Email sent successfully!'' \<notin> set (shown (app_demo w inp s fs)))"
proof -
  from assms(1,3) have body: "body \<noteq> []" by (auto simp: PendingApproval_def)
  show ?thesis
  proof (cases "drafts_delete w d")
    case None
    with assms body show ?thesis
      by (simp add: app_demo_defs send_gmail_message_def Let_def reset_fields_def
          Authenticated_def no_pending_draft_def)
  next
    case (Some e)
    with assms body show ?thesis
      by (simp add: app_demo_defs send_gmail_message_def Let_def)
  qed
qed

theorem send_then_delete_witness:
  "PendingApproval (pending_demo ''alice@iands.com'') \<and>
   as_bytes (world0 ''alice@iands.com'')
     (html_message [''a@x.com'', ''b@y.com''] (Some ''Invoice 123'') ''Dear Sir'' None) = None \<and>
   messages_send (world0 ''alice@iands.com'')
     (html_message [''a@x.com'', ''b@y.com''] (Some ''Invoice 123'') ''Dear Sir'' None) = None \<and>
   drafts_delete (world0 ''alice@iands.com'') ''r-1'' = None \<and>
   calls (app_demo (world0 ''alice@iands.com'') (click Send_Email [] [])
            (pending_demo ''alice@iands.com'') no_files) =
     [Messages_Send (Service creds0)
        (html_message [''a@x.com'', ''b@y.com''] (Some ''Invoice 123'') ''Dear Sir'' None),
      Drafts_Delete (Service creds0) ''r-1''] \<and>
   state (app_demo (world0 ''alice@iands.com'') (click Send_Email [] [])
            (pending_demo ''alice@iands.com'') no_files) = logged_in_demo ''alice@iands.com'' \<and>
   raised (app_demo (world0 ''alice@iands.com'') (click Send_Email [] [])
            (pending_demo ''alice@iands.com'') no_files) = None"
proof -
  let ?s = "pending_demo ''alice@iands.com''"
  let ?w = "world0 ''alice@iands.com''"
  have p: "PendingApproval ?s" by (simp add: PendingApproval_def pending_demo_def)
  have f: "generated_subject ?s = Some ''Invoice 123''" "generated_cc ?s = None"
    by (simp_all add: pending_demo_def)
  have e: "as_bytes ?w (html_message [''a@x.com'', ''b@y.com''] (generated_subject ?s)
             ''Dear Sir'' (generated_cc ?s)) = None"
    using encodes_example(1)[of "''alice@iands.com''"] by (simp add: f)
  have m: "messages_send ?w (html_message [''a@x.com'', ''b@y.com''] (generated_subject ?s)
             ''Dear Sir'' (generated_cc ?s)) = None"
    by (simp add: world0_def)
  have dl: "drafts_delete ?w ''r-1'' = None" by (simp add: world0_def)
  have r: "reset_fields ?s = logged_in_demo ''alice@iands.com''"
    by (simp add: reset_fields_def pending_demo_def logged_in_demo_def)
  from send_then_delete[OF p, of "Service creds0" "''Dear Sir''" "[''a@x.com'', ''b@y.com'']"
      "''r-1''" "click Send_Email [] []" ?w no_files] e m
  have "calls (app_demo ?w (click Send_Email [] []) ?s no_files) =
           [Messages_Send (Service creds0)
              (html_message [''a@x.com'', ''b@y.com''] (generated_subject ?s) ''Dear Sir'' (generated_cc ?s)),
            Drafts_Delete (Service creds0) ''r-1''] \<and>
        state (app_demo ?w (click Send_Email [] []) ?s no_files) = reset_fields ?s \<and>
        raised (app_demo ?w (click Send_Email [] []) ?s no_files) = None"
    by (simp add: pending_demo_def click_def dl)
  with p e m dl r f show ?thesis by simp
qed

end
